theory Spec2Isabelle
  imports Main "HOL-Library.Word"
begin

section \<open>The Beget provider of ddns-updater\<close>

text \<open>
  A shallow embedding of \<^verbatim>\<open>internal/provider/providers/beget/provider.go\<close>: the
  constructor \<^verbatim>\<open>New\<close>, the authenticated GET \<^verbatim>\<open>apiCall\<close> and the two-phase
  \<^verbatim>\<open>Update\<close> (getData, then changeRecords).

  What the file calls but does not contain is a parameter of the model, collected in
  the record \<open>env\<close>: \<^verbatim>\<open>json.Unmarshal\<close> and \<^verbatim>\<open>json.Marshal\<close> at each type the file uses them
  at, \<^verbatim>\<open>netip.Addr.String\<close>, the failure of \<^verbatim>\<open>http.NewRequestWithContext\<close>,
  and from the other packages of ddns-updater \<^verbatim>\<open>utils.CheckDomain\<close>,
  \<^verbatim>\<open>errors.ErrDomainNotValid\<close> and the user agent string.
  The HTTP client is an argument of \<^verbatim>\<open>Update\<close>, as in the source. The context
  is not: a cancelled or expired context is an error the client answers with, and a
  \<^verbatim>\<open>nil\<close> context is a failure of \<^verbatim>\<open>http.NewRequestWithContext\<close>.
\<close>

subsection \<open>Errors\<close>

text \<open>
  A Go \<^verbatim>\<open>error\<close> value: its message (\<^verbatim>\<open>Error()\<close>) and the errors it wraps
  (\<^verbatim>\<open>Unwrap()\<close>; none for \<^verbatim>\<open>errors.New\<close> and for a \<^verbatim>\<open>fmt.Errorf\<close> without
  \<^verbatim>\<open>%w\<close>). A \<^verbatim>\<open>nil\<close> error is \<open>None\<close> of \<open>error option\<close>.
\<close>

datatype error = Error (msg: string) (wraps: "error list")

text \<open>\<^verbatim>\<open>fmt.Errorf(prefix + "%w", err)\<close>: the message of \<open>err\<close> after the prefix,
  wrapping \<open>err\<close>.\<close>

definition Errorf_w :: "string \<Rightarrow> error \<Rightarrow> error" where
  "Errorf_w prefix err = Error (prefix @ msg err) [err]"

text \<open>The verb \<^verbatim>\<open>%d\<close> of \<^verbatim>\<open>fmt\<close> on an \<^verbatim>\<open>int\<close>: decimal digits, a minus sign
  before a negative number.\<close>

fun digits :: "nat \<Rightarrow> string" where
  "digits n =
     (if n < 10 then [''0123456789'' ! n]
      else digits (n div 10) @ [''0123456789'' ! (n mod 10)])"

declare digits.simps [simp del]

definition decimal :: "int \<Rightarrow> string" where
  "decimal i = (if i < 0 then CHR ''-'' # digits (nat (- i)) else digits (nat i))"

subsection \<open>Addresses\<close>

text \<open>
  \<^verbatim>\<open>netip.Addr\<close>: the zero value \<^verbatim>\<open>netip.Addr{}\<close>, which is not a valid address,
  an IPv4 address (its four bytes, as \<^verbatim>\<open>netip.AddrFrom4\<close> takes them), or an IPv6 address
  with its zone.
\<close>

datatype Addr =
    Addr_zero
  | Addr_v4 "8 word" "8 word" "8 word" "8 word"
  | Addr_v6 "128 word" string

definition IsValid :: "Addr \<Rightarrow> bool" where
  "IsValid a = (a \<noteq> Addr_zero)"

subsection \<open>The data of the package\<close>

text \<open>The struct \<^verbatim>\<open>Provider\<close> (lines 20 to 29).\<close>

record Provider =
  domain :: string
  target :: string
  owner :: string
  login :: string
  password :: string
  priority :: int

text \<open>The anonymous struct \<^verbatim>\<open>extraSettings\<close> of \<^verbatim>\<open>New\<close> (lines 46 to 52).\<close>

record extraSettings =
  Login :: string
  Password :: string
  Domain :: string
  Priority :: int

text \<open>
  \<^verbatim>\<open>json.RawMessage\<close> is a byte string. A Go map is \<open>None\<close> when it is \<^verbatim>\<open>nil\<close>
  (what \<^verbatim>\<open>json.Unmarshal\<close> leaves when the key is absent or \<^verbatim>\<open>null\<close>) and
  \<open>Some m\<close> otherwise. A \<^verbatim>\<open>nil\<close> map can be read, but assigning to an entry of it
  panics: \<open>map_assign\<close> returns \<open>None\<close> for that panic.
\<close>

type_synonym RawMessage = string

type_synonym RawMap = "(string \<rightharpoonup> RawMessage) option"

definition map_assign :: "RawMap \<Rightarrow> string \<Rightarrow> RawMessage \<Rightarrow> (string \<rightharpoonup> RawMessage) option" where
  "map_assign m k v = (case m of None \<Rightarrow> None | Some f \<Rightarrow> Some (f(k \<mapsto> v)))"

text \<open>
  The struct \<^verbatim>\<open>{FQDN string; Records map[string]json.RawMessage}\<close>: the \<^verbatim>\<open>Result\<close>
  of \<^verbatim>\<open>getDataResponse\<close> (lines 35 to 38) and \<^verbatim>\<open>inputData\<close> of \<^verbatim>\<open>Update\<close>
  (lines 187 to 193), which differ in their JSON tags only.
\<close>

record fqdnRecords =
  FQDN :: string
  Records :: RawMap

text \<open>
  The envelope \<^verbatim>\<open>{Status; Answer {Status; Result}}\<close> of \<^verbatim>\<open>getDataResponse\<close>
  (lines 31 to 40) and of \<^verbatim>\<open>result\<close> in \<^verbatim>\<open>Update\<close> (lines 212 to 218):
  \<open>Answer_Status (Answer r)\<close> is \<^verbatim>\<open>r.Answer.Status\<close>.
\<close>

record 'r answer =
  Answer_Status :: string
  Answer_Result :: 'r

record 'r response =
  Status :: string
  Answer :: "'r answer"

type_synonym getDataResponse = "fqdnRecords response"

type_synonym changeRecordsResult = "bool response"

text \<open>The element of the slice marshalled into the new A entry (lines 195 to 198).\<close>

record AEntry =
  Priority :: int
  Value :: string

subsection \<open>HTTP\<close>

text \<open>
  \<^verbatim>\<open>url.Values\<close> with \<^verbatim>\<open>Set\<close>, which replaces what the key held. \<^verbatim>\<open>url.URL\<close>
  with the fields the source fills; \<open>RawQuery\<close> holds the values that
  \<^verbatim>\<open>v.Encode()\<close> writes out.
\<close>

type_synonym Values = "string \<rightharpoonup> string list"

definition Values_Set :: "Values \<Rightarrow> string \<Rightarrow> string \<Rightarrow> Values" where
  "Values_Set v k x = v(k \<mapsto> [x])"

record URL =
  Scheme :: string
  Host :: string
  Path :: string
  RawQuery :: Values

text \<open>
  An \<^verbatim>\<open>http.Request\<close>: method, URL, header and body (\<open>None\<close> for the \<^verbatim>\<open>nil\<close>
  body). An \<^verbatim>\<open>http.Response\<close>: the status code and what \<^verbatim>\<open>io.ReadAll\<close> makes
  of its body, the bytes or a read error.
\<close>

record Request =
  Method :: string
  Url :: URL
  Header :: Values
  Body :: "string option"

record Response =
  StatusCode :: int
  ReadAll_Body :: "error + string"

text \<open>
  The \<^verbatim>\<open>*http.Client\<close> handed to \<^verbatim>\<open>Update\<close>: \<^verbatim>\<open>client.Do\<close> answers a request
  with an error (network failure, cancelled or expired context) or a response, and
  the answer may depend on the requests the client has performed before.
\<close>

type_synonym Client = "Request list \<Rightarrow> Request \<Rightarrow> error + Response"

subsection \<open>What the file imports\<close>

record env =
  json_Unmarshal_extraSettings :: "string \<Rightarrow> error + extraSettings"
  json_Unmarshal_getData :: "string \<Rightarrow> error + getDataResponse"
  json_Unmarshal_changeRecords :: "string \<Rightarrow> error + changeRecordsResult"
  json_Marshal_fqdn :: "string \<Rightarrow> error + string"
  json_Marshal_AEntries :: "AEntry list \<Rightarrow> error + string"
  json_Marshal_inputData :: "fqdnRecords \<Rightarrow> error + string"
  Addr_String :: "Addr \<Rightarrow> string"
  NewRequestWithContext_err :: "URL \<Rightarrow> error option"
  CheckDomain :: "string \<Rightarrow> error option"
  ErrDomainNotValid :: error
  userAgent :: string

text \<open>
  Modelled from the spec: \<^verbatim>\<open>headers.SetUserAgent\<close> and \<^verbatim>\<open>headers.SetAccept\<close>
  (package \<^verbatim>\<open>internal/provider/headers\<close>, whose source is missing). The spec has
  the request builder set "a fixed user-agent and an \<^verbatim>\<open>Accept: application/json\<close>
  header": the first sets the header \<^verbatim>\<open>User-Agent\<close> to a fixed string, the second
  sets \<^verbatim>\<open>Accept\<close> to its argument.
\<close>

definition SetUserAgent :: "env \<Rightarrow> Request \<Rightarrow> Request" where
  "SetUserAgent e request =
     request\<lparr>Header := Values_Set (Header request) ''User-Agent'' (userAgent e)\<rparr>"

definition SetAccept :: "Request \<Rightarrow> string \<Rightarrow> Request" where
  "SetAccept request v = request\<lparr>Header := Values_Set (Header request) ''Accept'' v\<rparr>"

text \<open>
  Modelled from the spec: \<^verbatim>\<open>utils.ToSingleLine\<close> (package
  \<^verbatim>\<open>internal/provider/utils\<close>, whose source is missing). The spec asks for "a
  single-line rendering of the raw response body (newlines/control characters collapsed
  so the message stays on one line)": the rendering keeps the characters of the body
  in their order and leaves out the control characters (the codes below 32, line feed
  and carriage return among them, and 127).
\<close>

definition is_control :: "char \<Rightarrow> bool" where
  "is_control c = (of_char c < (32::nat) \<or> of_char c = (127::nat))"

definition ToSingleLine :: "string \<Rightarrow> string" where
  "ToSingleLine s = filter (\<lambda>c. \<not> is_control c) s"

subsection \<open>New\<close>

text \<open>
  \<^verbatim>\<open>New\<close> (lines 42 to 74) returns \<^verbatim>\<open>(p *Provider, err error)\<close>: \<open>Inl err\<close> is
  \<^verbatim>\<open>(nil, err)\<close>, \<open>Inr p\<close> is \<^verbatim>\<open>(&p, nil)\<close>.
\<close>

definition New :: "env \<Rightarrow> string \<Rightarrow> string \<Rightarrow> string \<Rightarrow> error + Provider" where
  "New e data domain_arg owner_arg =
     (case json_Unmarshal_extraSettings e data of
        Inl err \<Rightarrow> Inl err
      | Inr extraSettings \<Rightarrow>
          (case CheckDomain e (Domain extraSettings) of
             Some err \<Rightarrow>
               Inl (Error (msg (ErrDomainNotValid e) @ '': '' @ msg err)
                      [ErrDomainNotValid e, err])
           | None \<Rightarrow>
               Inr \<lparr>domain = domain_arg,
                    target = Domain extraSettings,
                    owner = owner_arg,
                    login = Login extraSettings,
                    password = Password extraSettings,
                    priority = extraSettings.Priority extraSettings\<rparr>))"

subsection \<open>apiCall\<close>

text \<open>Lines 118 to 130: the URL with its query.\<close>

definition apiCall_url :: "Provider \<Rightarrow> string \<Rightarrow> string \<Rightarrow> URL" where
  "apiCall_url p URLEndpoint inputJSON =
     (let v = Map.empty;
          v = Values_Set v ''login'' (login p);
          v = Values_Set v ''passwd'' (password p);
          v = Values_Set v ''input_format'' ''json'';
          v = Values_Set v ''output_format'' ''json'';
          v = Values_Set v ''input_data'' inputJSON
      in \<lparr>Scheme = ''https'', Host = ''api.beget.com'', Path = URLEndpoint, RawQuery = v\<rparr>)"

text \<open>
  Line 132 does not hand the struct \<^verbatim>\<open>u\<close> to the request: it writes it out with
  \<^verbatim>\<open>u.String()\<close>, and \<^verbatim>\<open>http.NewRequestWithContext\<close> parses that string again.
  For a URL with a scheme and a host, \<^verbatim>\<open>URL.String\<close> writes a slash before a path
  that is not empty and does not start with one. So the scheme, the host and the query
  of the request's URL are those of \<^verbatim>\<open>u\<close>, and its path is the path of \<^verbatim>\<open>u\<close>
  with that slash: \<^verbatim>\<open>api/dns/getData\<close> becomes \<^verbatim>\<open>/api/dns/getData\<close>. (A
  string that does not parse is a failure of \<open>NewRequestWithContext_err\<close>.)
\<close>

definition norm_path :: "string \<Rightarrow> string" where
  "norm_path path =
     (case path of
        [] \<Rightarrow> []
      | c # cs \<Rightarrow> if c = CHR ''/'' then path else CHR ''/'' # path)"

definition URL_String_Parse :: "URL \<Rightarrow> URL" where
  "URL_String_Parse u = u\<lparr>Path := norm_path (Path u)\<rparr>"

text \<open>Lines 132 to 137, when the request is created: a GET of the URL written out and
  parsed again, with no body and the two headers.\<close>

definition apiCall_request :: "env \<Rightarrow> Provider \<Rightarrow> string \<Rightarrow> string \<Rightarrow> Request" where
  "apiCall_request e p URLEndpoint inputJSON =
     SetAccept
       (SetUserAgent e
          \<lparr>Method = ''GET'', Url = URL_String_Parse (apiCall_url p URLEndpoint inputJSON),
           Header = Map.empty, Body = None\<rparr>)
       ''application/json''"

text \<open>
  \<^verbatim>\<open>apiCall\<close> (lines 117 to 155) returns \<^verbatim>\<open>([]byte, error)\<close>, both at once. The
  model threads the list of requests handed to \<^verbatim>\<open>client.Do\<close> so far and returns
  it extended by the request of this call, when the call got that far.
\<close>

definition apiCall ::
  "env \<Rightarrow> Provider \<Rightarrow> Client \<Rightarrow> Request list \<Rightarrow> string \<Rightarrow> string
     \<Rightarrow> (string \<times> error option) \<times> Request list" where
  "apiCall e p client sent URLEndpoint inputJSON =
     (let u = apiCall_url p URLEndpoint inputJSON in
      case NewRequestWithContext_err e u of
        Some err \<Rightarrow>
          (([], Some (Errorf_w (Path u @ '': Failed creating HTTP request: '') err)), sent)
      | None \<Rightarrow>
          (let request = apiCall_request e p URLEndpoint inputJSON in
           case client sent request of
             Inl err \<Rightarrow>
               (([], Some (Errorf_w (Path u @ '': Failed performing HTTP request: '') err)),
                sent @ [request])
           | Inr response \<Rightarrow>
               (case ReadAll_Body response of
                  Inl err \<Rightarrow>
                    (([], Some (Errorf_w (Path u @ '': Failed reading response body: '') err)),
                     sent @ [request])
                | Inr b \<Rightarrow>
                    if StatusCode response \<noteq> 200
                    then ((b, Some (Error (Path u @ '': HTTP status is ''
                                             @ decimal (StatusCode response)) [])),
                          sent @ [request])
                    else ((b, None), sent @ [request]))))"

subsection \<open>Update\<close>

text \<open>
  What a call of \<^verbatim>\<open>Update\<close> ends in: it returns \<^verbatim>\<open>(newIP, err)\<close>, or it panics.
\<close>

datatype outcome = Return Addr "error option" | Panic string

text \<open>
  \<^verbatim>\<open>Update\<close> (lines 157 to 228), with the requests it handed to the client. The
  error of the second \<^verbatim>\<open>apiCall\<close> (line 210) is overwritten by line 219 before
  anything reads it: the model drops it there.
\<close>

definition Update :: "env \<Rightarrow> Provider \<Rightarrow> Client \<Rightarrow> Addr \<Rightarrow> outcome \<times> Request list" where
  "Update e p client ip =
   (case json_Marshal_fqdn e (target p) of
      Inl err \<Rightarrow>
        (Return Addr_zero (Some (Errorf_w ''Couldn't marshal getData request: '' err)), [])
    | Inr getDataRequest \<Rightarrow>
     (case apiCall e p client [] ''api/dns/getData'' getDataRequest of
        ((currentDataRaw, Some err), sent) \<Rightarrow>
          (Return Addr_zero (Some (Errorf_w ''Calling getData failed: '' err)), sent)
      | ((currentDataRaw, None), sent) \<Rightarrow>
       (case json_Unmarshal_getData e currentDataRaw of
          Inl err \<Rightarrow>
            (Return Addr_zero
               (Some (Errorf_w ''Failed unmarshalling getData response: '' err)), sent)
        | Inr currentDataStruct \<Rightarrow>
           if Status currentDataStruct \<noteq> ''success''
              \<or> Answer_Status (Answer currentDataStruct) \<noteq> ''success''
              \<or> FQDN (Answer_Result (Answer currentDataStruct)) \<noteq> target p
           then (Return Addr_zero
                   (Some (Error ''getData response doesn't indicate success'' [])), sent)
           else
            (let inputData =
                   \<lparr>FQDN = target p,
                    Records = Records (Answer_Result (Answer currentDataStruct))\<rparr> in
             case json_Marshal_AEntries e
                    [\<lparr>Priority = priority p, Value = Addr_String e ip\<rparr>] of
               Inl err \<Rightarrow>
                 (Return Addr_zero
                    (Some (Errorf_w ''Couldn't marshal new A entry JSON: '' err)), sent)
             | Inr newAEntryJSON \<Rightarrow>
                (case map_assign (Records inputData) ''A'' newAEntryJSON of
                   None \<Rightarrow> (Panic ''assignment to entry in nil map'', sent)
                 | Some records \<Rightarrow>
                    (let inputData = inputData\<lparr>Records := Some records\<rparr> in
                     case json_Marshal_inputData e inputData of
                       Inl err \<Rightarrow>
                         (Return Addr_zero
                            (Some (Errorf_w ''Couldn't marshal json: '' err)), sent)
                     | Inr inputDataRaw \<Rightarrow>
                        (case apiCall e p client sent ''/api/dns/changeRecords'' inputDataRaw of
                           ((changeRecordsResponseRaw, _), sent') \<Rightarrow>
                            (case json_Unmarshal_changeRecords e changeRecordsResponseRaw of
                               Inl err \<Rightarrow>
                                 (Return Addr_zero
                                    (Some (Errorf_w
                                       ''Failed unmarshalling changeRecords response: '' err)),
                                  sent')
                             | Inr result \<Rightarrow>
                                 if Status result \<noteq> ''success''
                                    \<or> Answer_Status (Answer result) \<noteq> ''success''
                                 then (Return Addr_zero
                                         (Some (Error
                                            (''changeRequest response doesn't indicate success: ''
                                               @ ToSingleLine changeRecordsResponseRaw) [])),
                                       sent')
                                 else (Return ip None, sent')))))))))"

subsection \<open>A concrete environment\<close>

text \<open>
  The theorems below hold for every \<open>env\<close>, provider and client. To run the
  definitions on concrete inputs, this part fixes one of each: a configuration, the
  documents the provider's API sends and receives in the runs, a codec that knows these
  documents, and clients that answer the two endpoints with given responses.
\<close>

definition demo_config :: string where
  \<open>demo_config =
     ''{"login":"user","password":"secret","domain":"home.example.com","priority":10}''\<close>

definition demo_config_no_credentials :: string where
  \<open>demo_config_no_credentials = ''{"domain":"home.example.com","priority":10}''\<close>

definition demo_config_bad_domain :: string where
  \<open>demo_config_bad_domain =
     ''{"login":"user","password":"secret","domain":"home example","priority":10}''\<close>

definition demo_getData_body :: string where
  \<open>demo_getData_body =
     ''{"Status":"success","Answer":{"Status":"success","Result":{"fqdn":"home.example.com","Records":{"A":[{"ttl":600,"address":"198.51.100.7"},{"ttl":600,"address":"198.51.100.8"}],"TXT":["v=spf1"]}}}}''\<close>

definition demo_getData_other_fqdn_body :: string where
  \<open>demo_getData_other_fqdn_body =
     ''{"Status":"success","Answer":{"Status":"success","Result":{"fqdn":"Home.Example.Com","Records":{"TXT":["v=spf1"]}}}}''\<close>

definition demo_getData_error_body :: string where
  \<open>demo_getData_error_body =
     ''{"Status":"error","error_text":"No such user","error_code":"AUTH_ERROR"}''\<close>

definition demo_changeRecords_body :: string where
  \<open>demo_changeRecords_body =
     ''{"Status":"success","Answer":{"Status":"success","Result":true}}''\<close>

text \<open>A rejected write, on two lines: a line feed follows the first comma.\<close>

definition demo_changeRecords_rejected_body :: string where
  \<open>demo_changeRecords_rejected_body =
     ''{"Status":"success",'' @ [CHR 0x0A] @ ''"Answer":{"Status":"error"}}''\<close>

text \<open>
  The decoders of the concrete environment: each knows the documents above and gives
  what \<^verbatim>\<open>json.Unmarshal\<close> gives on them (a key the struct does not have is
  skipped, a field the document does not have keeps its zero value). Any other document
  is refused with the error of the empty document, the only other one the runs decode.
\<close>

definition demo_SyntaxError :: error where
  "demo_SyntaxError = Error ''unexpected end of JSON input'' []"

definition demo_Unmarshal_extraSettings :: "string \<Rightarrow> error + extraSettings" where
  "demo_Unmarshal_extraSettings data =
     (if data = demo_config
      then Inr \<lparr>Login = ''user'', Password = ''secret'',
                Domain = ''home.example.com'', Priority = 10\<rparr>
      else if data = demo_config_no_credentials
      then Inr \<lparr>Login = '''', Password = '''', Domain = ''home.example.com'', Priority = 10\<rparr>
      else if data = demo_config_bad_domain
      then Inr \<lparr>Login = ''user'', Password = ''secret'',
                Domain = ''home example'', Priority = 10\<rparr>
      else Inl demo_SyntaxError)"

definition demo_records :: "string \<rightharpoonup> RawMessage" where
  \<open>demo_records =
     [''A'' \<mapsto> ''[{"ttl":600,"address":"198.51.100.7"},{"ttl":600,"address":"198.51.100.8"}]'',
      ''TXT'' \<mapsto> ''["v=spf1"]'']\<close>

definition demo_getData_decoded :: getDataResponse where
  "demo_getData_decoded =
     \<lparr>Status = ''success'',
      Answer = \<lparr>Answer_Status = ''success'',
        Answer_Result = \<lparr>FQDN = ''home.example.com'', Records = Some demo_records\<rparr>\<rparr>\<rparr>"

definition demo_getData_other_fqdn_decoded :: getDataResponse where
  \<open>demo_getData_other_fqdn_decoded =
     \<lparr>Status = ''success'',
      Answer = \<lparr>Answer_Status = ''success'',
        Answer_Result = \<lparr>FQDN = ''Home.Example.Com'',
                         Records = Some [''TXT'' \<mapsto> ''["v=spf1"]'']\<rparr>\<rparr>\<rparr>\<close>

definition demo_getData_error_decoded :: getDataResponse where
  "demo_getData_error_decoded =
     \<lparr>Status = ''error'',
      Answer = \<lparr>Answer_Status = [],
        Answer_Result = \<lparr>FQDN = [], Records = None\<rparr>\<rparr>\<rparr>"

definition demo_Unmarshal_getData :: "string \<Rightarrow> error + getDataResponse" where
  "demo_Unmarshal_getData data =
     (if data = demo_getData_body then Inr demo_getData_decoded
      else if data = demo_getData_other_fqdn_body then Inr demo_getData_other_fqdn_decoded
      else if data = demo_getData_error_body then Inr demo_getData_error_decoded
      else Inl demo_SyntaxError)"

definition demo_Unmarshal_changeRecords :: "string \<Rightarrow> error + changeRecordsResult" where
  "demo_Unmarshal_changeRecords data =
     (if data = demo_changeRecords_body
      then Inr \<lparr>Status = ''success'',
                Answer = \<lparr>Answer_Status = ''success'', Answer_Result = True\<rparr>\<rparr>
      else if data = demo_changeRecords_rejected_body
      then Inr \<lparr>Status = ''success'',
                Answer = \<lparr>Answer_Status = ''error'', Answer_Result = False\<rparr>\<rparr>
      else Inl demo_SyntaxError)"

text \<open>
  The encoders of the concrete environment write the JSON of \<^verbatim>\<open>json.Marshal\<close> for
  strings that need no escaping and for records of the types A, MX and TXT (the keys of
  a map in their sorted order).
\<close>

fun commas :: "string list \<Rightarrow> string" where
  "commas [] = []"
| "commas [x] = x"
| "commas (x # y # ys) = x @ '','' @ commas (y # ys)"

definition demo_Marshal_fqdn :: "string \<Rightarrow> error + string" where
  \<open>demo_Marshal_fqdn t = Inr (''{"fqdn":"'' @ t @ ''"}'')\<close>

definition demo_Marshal_AEntries :: "AEntry list \<Rightarrow> error + string" where
  \<open>demo_Marshal_AEntries es =
     Inr (''['' @ commas (map (\<lambda>x. ''{"priority":'' @ decimal (AEntry.Priority x)
                                    @ '',"value":"'' @ Value x @ ''"}'') es) @ '']'')\<close>

definition demo_Marshal_inputData :: "fqdnRecords \<Rightarrow> error + string" where
  \<open>demo_Marshal_inputData d =
     Inr (''{"fqdn":"'' @ FQDN d @ ''","records":''
          @ (case Records d of
               None \<Rightarrow> ''null''
             | Some m \<Rightarrow>
                 ''{'' @ commas (concat (map (\<lambda>k. case m k of
                                                     None \<Rightarrow> []
                                                   | Some v \<Rightarrow> [''"'' @ k @ ''":'' @ v])
                                           [''A'', ''MX'', ''TXT''])) @ ''}'')
          @ ''}'')\<close>

text \<open>
  \<^verbatim>\<open>netip.Addr.String\<close> on the zero address and on IPv4 addresses; the runs use
  no IPv6 address, and the concrete environment has no rendering for one.
\<close>

definition demo_Addr_String :: "Addr \<Rightarrow> string" where
  "demo_Addr_String a =
     (case a of
        Addr_zero \<Rightarrow> ''invalid IP''
      | Addr_v4 b1 b2 b3 b4 \<Rightarrow>
          digits (unat b1) @ ''.'' @ digits (unat b2) @ ''.''
          @ digits (unat b3) @ ''.'' @ digits (unat b4)
      | Addr_v6 w z \<Rightarrow> [])"

text \<open>A domain check that refuses the empty name and a name with a space in it.\<close>

definition demo_CheckDomain :: "string \<Rightarrow> error option" where
  "demo_CheckDomain d =
     (if d = [] \<or> CHR '' '' \<in> set d then Some (Error ''invalid domain name'' []) else None)"

definition demo_env :: env where
  "demo_env =
     \<lparr>json_Unmarshal_extraSettings = demo_Unmarshal_extraSettings,
      json_Unmarshal_getData = demo_Unmarshal_getData,
      json_Unmarshal_changeRecords = demo_Unmarshal_changeRecords,
      json_Marshal_fqdn = demo_Marshal_fqdn,
      json_Marshal_AEntries = demo_Marshal_AEntries,
      json_Marshal_inputData = demo_Marshal_inputData,
      Addr_String = demo_Addr_String,
      NewRequestWithContext_err = (\<lambda>u. None),
      CheckDomain = demo_CheckDomain,
      ErrDomainNotValid = Error ''domain is not valid'' [],
      userAgent = ''DDNS-Updater''\<rparr>"

definition demo_provider :: Provider where
  "demo_provider =
     \<lparr>domain = ''example.com'', target = ''home.example.com'', owner = ''home'',
      login = ''user'', password = ''secret'', priority = 10\<rparr>"

definition demo_ip :: Addr where
  "demo_ip = Addr_v4 203 0 113 5"

text \<open>
  A client that answers a request whose path is that of the getData endpoint (as the
  request carries it, with its leading slash) with its first argument and
  any other request with its second, whatever it performed before; \<open>OK b\<close> is a
  response of status 200 with body \<open>b\<close>.
\<close>

definition demo_client :: "error + Response \<Rightarrow> error + Response \<Rightarrow> Client" where
  "demo_client getData changeRecords sent request =
     (if Path (Url request) = ''/api/dns/getData'' then getData else changeRecords)"

definition OK :: "string \<Rightarrow> error + Response" where
  "OK b = Inr \<lparr>StatusCode = 200, ReadAll_Body = Inr b\<rparr>"

text \<open>A response of status 500 with body \<open>b\<close>, and a call that ends in an expired
  deadline.\<close>

definition demo_status_500 :: "string \<Rightarrow> error + Response" where
  "demo_status_500 b = Inr \<lparr>StatusCode = 500, ReadAll_Body = Inr b\<rparr>"

definition demo_timeout :: "error + Response" where
  "demo_timeout = Inl (Error ''context deadline exceeded'' [])"

text \<open>The documents the demo provider sends in a run that gets to the write.\<close>

definition demo_getData_request :: string where
  \<open>demo_getData_request = ''{"fqdn":"home.example.com"}''\<close>

definition demo_newAEntry :: string where
  \<open>demo_newAEntry = ''[{"priority":10,"value":"203.0.113.5"}]''\<close>

definition demo_changeRecords_request :: string where
  \<open>demo_changeRecords_request =
     ''{"fqdn":"home.example.com","records":{"A":[{"priority":10,"value":"203.0.113.5"}],"TXT":["v=spf1"]}}''\<close>

section \<open>Properties\<close>

subsection \<open>Facts about the definitions\<close>

lemma Path_apiCall_url [simp]: "Path (apiCall_url p ep inp) = ep"
  by (simp add: apiCall_url_def Let_def)

lemma norm_path_getData [simp]: "norm_path ''api/dns/getData'' = ''/api/dns/getData''"
  by (simp add: norm_path_def)

lemma norm_path_changeRecords [simp]:
  "norm_path ''/api/dns/changeRecords'' = ''/api/dns/changeRecords''"
  by (simp add: norm_path_def)

lemma Path_apiCall_request [simp]:
  "Path (Url (apiCall_request e p ep inp)) = norm_path ep"
  by (simp add: apiCall_request_def SetAccept_def SetUserAgent_def URL_String_Parse_def)

lemma apiCall_no_error_sent:
  assumes "apiCall e p client sent ep inp = ((raw, None), sent')"
  shows "sent' = sent @ [apiCall_request e p ep inp]"
  using assms
  by (auto simp: apiCall_def Let_def Errorf_w_def split: option.splits sum.splits if_splits)

lemma apiCall_sent:
  "snd (apiCall e p client sent ep inp) = sent
   \<or> snd (apiCall e p client sent ep inp) = sent @ [apiCall_request e p ep inp]"
  by (simp add: apiCall_def Let_def split: option.split sum.split)

lemma apiCall_sent_paths:
  assumes "apiCall e p client sent ep inp = (res, sent')" and "x \<in> set sent'"
  shows "x \<in> set sent \<or> Path (Url x) = norm_path ep"
  using apiCall_sent [of e p client sent ep inp] assms by auto

text \<open>
  In every call of \<^verbatim>\<open>Update\<close>, a request to changeRecords is handed to the client
  only after the fetch has returned without error a body that decodes to a response
  that passes the three checks of line 181.
\<close>

lemma Update_write_only_after_checks:
  assumes "x \<in> set (snd (Update e p client ip))"
    and "Path (Url x) = ''/api/dns/changeRecords''"
  shows "\<exists>q raw sent r.
           json_Marshal_fqdn e (target p) = Inr q
           \<and> apiCall e p client [] ''api/dns/getData'' q = ((raw, None), sent)
           \<and> json_Unmarshal_getData e raw = Inr r
           \<and> Status r = ''success'' \<and> Answer_Status (Answer r) = ''success''
           \<and> FQDN (Answer_Result (Answer r)) = target p"
proof (cases "json_Marshal_fqdn e (target p)")
  case (Inl err)
  with assms show ?thesis by (simp add: Update_def)
next
  case (Inr q)
  obtain raw err sent where a: "apiCall e p client [] ''api/dns/getData'' q = ((raw, err), sent)"
    by (metis surj_pair)
  have paths: "\<forall>y \<in> set sent. Path (Url y) = ''/api/dns/getData''"
    using apiCall_sent_paths [OF a] by auto
  then have nosent: "x \<notin> set sent"
    using assms(2) by auto
  show ?thesis
  proof (cases err)
    case (Some err')
    with assms(1) nosent Inr a show ?thesis by (simp add: Update_def)
  next
    case None
    show ?thesis
    proof (cases "json_Unmarshal_getData e raw")
      case (Inl err')
      with assms(1) nosent Inr a None show ?thesis by (simp add: Update_def)
    next
      case r: (Inr r)
      show ?thesis
      proof (cases "Status r \<noteq> ''success'' \<or> Answer_Status (Answer r) \<noteq> ''success''
                      \<or> FQDN (Answer_Result (Answer r)) \<noteq> target p")
        case True
        with assms(1) nosent Inr a None r show ?thesis by (auto simp add: Update_def)
      next
        case False
        with Inr a None r show ?thesis by auto
      qed
    qed
  qed
qed

lemma ToSingleLine_no_control: "c \<in> set (ToSingleLine s) \<Longrightarrow> \<not> is_control c"
  by (simp add: ToSingleLine_def)

lemma is_control_LF: "is_control (CHR 0x0A)"
  by (simp add: is_control_def)

lemma is_control_CR: "is_control (CHR 0x0D)"
  by (simp add: is_control_def)

text \<open>
  Once the fetch has passed its three checks with a record map that is not \<^verbatim>\<open>nil\<close>
  and the two documents have been serialised, the outcome of \<^verbatim>\<open>Update\<close> is decided
  by the body the second \<^verbatim>\<open>apiCall\<close> returns alone: its error \<open>err'\<close> is not
  looked at.
\<close>

lemma Update_write_phase:
  assumes "json_Marshal_fqdn e (target p) = Inr q"
    and "apiCall e p client [] ''api/dns/getData'' q = ((raw, None), sent)"
    and "json_Unmarshal_getData e raw = Inr r"
    and "Status r = ''success''"
    and "Answer_Status (Answer r) = ''success''"
    and "FQDN (Answer_Result (Answer r)) = target p"
    and "Records (Answer_Result (Answer r)) = Some R"
    and "json_Marshal_AEntries e [\<lparr>Priority = priority p, Value = Addr_String e ip\<rparr>] = Inr a"
    and "json_Marshal_inputData e \<lparr>FQDN = target p, Records = Some (R(''A'' \<mapsto> a))\<rparr>
           = Inr payload"
    and "apiCall e p client sent ''/api/dns/changeRecords'' payload = ((raw', err'), sent')"
  shows "Update e p client ip =
           (case json_Unmarshal_changeRecords e raw' of
              Inl err \<Rightarrow>
                (Return Addr_zero
                   (Some (Errorf_w ''Failed unmarshalling changeRecords response: '' err)), sent')
            | Inr result \<Rightarrow>
                if Status result \<noteq> ''success'' \<or> Answer_Status (Answer result) \<noteq> ''success''
                then (Return Addr_zero
                        (Some (Error (''changeRequest response doesn't indicate success: ''
                                        @ ToSingleLine raw') [])), sent')
                else (Return ip None, sent'))"
  by (simp add: Update_def assms map_assign_def)

text \<open>
  A fetch that passes the three checks but carries no record map (the key is absent or
  \<^verbatim>\<open>null\<close>) ends in the panic of line 202, before any write.
\<close>

lemma Update_nil_Records_panics:
  assumes "json_Marshal_fqdn e (target p) = Inr q"
    and "apiCall e p client [] ''api/dns/getData'' q = ((raw, None), sent)"
    and "json_Unmarshal_getData e raw = Inr r"
    and "Status r = ''success''"
    and "Answer_Status (Answer r) = ''success''"
    and "FQDN (Answer_Result (Answer r)) = target p"
    and "Records (Answer_Result (Answer r)) = None"
    and "json_Marshal_AEntries e [\<lparr>Priority = priority p, Value = Addr_String e ip\<rparr>] = Inr a"
  shows "Update e p client ip = (Panic ''assignment to entry in nil map'', sent)"
  by (simp add: Update_def assms map_assign_def)

subsection \<open>Runs of the concrete environment\<close>

lemma demo_NewRequest [simp]: "NewRequestWithContext_err demo_env u = None"
  by (simp add: demo_env_def)

lemma demo_CheckDomain_home: "CheckDomain demo_env ''home.example.com'' = None"
  by (simp add: demo_env_def demo_CheckDomain_def)

lemma demo_Unmarshal_config:
  "json_Unmarshal_extraSettings demo_env demo_config =
     Inr \<lparr>Login = ''user'', Password = ''secret'', Domain = ''home.example.com'',
          Priority = 10\<rparr>"
  by (simp add: demo_env_def demo_Unmarshal_extraSettings_def)

lemma demo_Unmarshal_no_credentials:
  "json_Unmarshal_extraSettings demo_env demo_config_no_credentials =
     Inr \<lparr>Login = [], Password = [], Domain = ''home.example.com'', Priority = 10\<rparr>"
  by (simp add: demo_env_def demo_Unmarshal_extraSettings_def demo_config_def
      demo_config_no_credentials_def)

lemma demo_Unmarshal_bad_domain:
  "json_Unmarshal_extraSettings demo_env demo_config_bad_domain =
     Inr \<lparr>Login = ''user'', Password = ''secret'', Domain = ''home example'', Priority = 10\<rparr>"
  by (simp add: demo_env_def demo_Unmarshal_extraSettings_def demo_config_def
      demo_config_no_credentials_def demo_config_bad_domain_def)

lemma demo_Marshal_target:
  "json_Marshal_fqdn demo_env (target demo_provider) = Inr demo_getData_request"
  by (simp add: demo_env_def demo_provider_def demo_Marshal_fqdn_def demo_getData_request_def)

lemma demo_ip_String: "Addr_String demo_env demo_ip = ''203.0.113.5''"
  by (simp add: demo_env_def demo_ip_def demo_Addr_String_def digits.simps)

lemma demo_Marshal_newAEntry:
  "json_Marshal_AEntries demo_env
     [\<lparr>Priority = priority demo_provider, Value = Addr_String demo_env demo_ip\<rparr>]
   = Inr demo_newAEntry"
  unfolding demo_ip_String
  by (simp add: demo_env_def demo_provider_def demo_Marshal_AEntries_def demo_newAEntry_def
      decimal_def digits.simps)

lemma demo_Marshal_records:
  "json_Marshal_inputData demo_env
     \<lparr>FQDN = target demo_provider, Records = Some (demo_records(''A'' \<mapsto> demo_newAEntry))\<rparr>
   = Inr demo_changeRecords_request"
  by (simp add: demo_env_def demo_provider_def demo_Marshal_inputData_def demo_newAEntry_def
      demo_changeRecords_request_def demo_records_def)

lemma demo_fetch:
  "json_Unmarshal_getData demo_env demo_getData_body = Inr demo_getData_decoded"
  "Status demo_getData_decoded = ''success''"
  "Answer_Status (Answer demo_getData_decoded) = ''success''"
  "FQDN (Answer_Result (Answer demo_getData_decoded)) = target demo_provider"
  "Records (Answer_Result (Answer demo_getData_decoded)) = Some demo_records"
  by (simp_all add: demo_env_def demo_Unmarshal_getData_def demo_getData_decoded_def
      demo_provider_def)

lemma demo_Unmarshal_other_fqdn:
  "json_Unmarshal_getData demo_env demo_getData_other_fqdn_body
   = Inr demo_getData_other_fqdn_decoded"
  by (simp add: demo_env_def demo_Unmarshal_getData_def demo_getData_body_def
      demo_getData_other_fqdn_body_def)

lemma demo_Unmarshal_error:
  "json_Unmarshal_getData demo_env demo_getData_error_body = Inr demo_getData_error_decoded"
  by (simp add: demo_env_def demo_Unmarshal_getData_def demo_getData_body_def
      demo_getData_other_fqdn_body_def demo_getData_error_body_def)

lemma demo_Unmarshal_accepted:
  "json_Unmarshal_changeRecords demo_env demo_changeRecords_body =
     Inr \<lparr>Status = ''success'', Answer = \<lparr>Answer_Status = ''success'', Answer_Result = True\<rparr>\<rparr>"
  by (simp add: demo_env_def demo_Unmarshal_changeRecords_def)

lemma demo_Unmarshal_rejected:
  "json_Unmarshal_changeRecords demo_env demo_changeRecords_rejected_body =
     Inr \<lparr>Status = ''success'', Answer = \<lparr>Answer_Status = ''error'', Answer_Result = False\<rparr>\<rparr>"
  by (simp add: demo_env_def demo_Unmarshal_changeRecords_def demo_changeRecords_body_def
      demo_changeRecords_rejected_body_def)

lemma demo_Unmarshal_empty:
  "json_Unmarshal_changeRecords demo_env [] = Inl demo_SyntaxError"
  by (simp add: demo_env_def demo_Unmarshal_changeRecords_def demo_changeRecords_body_def
      demo_changeRecords_rejected_body_def)

lemma demo_ToSingleLine_rejected:
  \<open>ToSingleLine demo_changeRecords_rejected_body =
     ''{"Status":"success","Answer":{"Status":"error"}}''\<close>
  by (simp add: ToSingleLine_def demo_changeRecords_rejected_body_def is_control_def)

lemma demo_apiCall_getData:
  "apiCall demo_env p (demo_client (OK b) w) sent ''api/dns/getData'' inp
   = ((b, None), sent @ [apiCall_request demo_env p ''api/dns/getData'' inp])"
  by (simp add: apiCall_def Let_def demo_client_def OK_def)

lemma demo_apiCall_changeRecords:
  "apiCall demo_env p (demo_client g (OK b)) sent ''/api/dns/changeRecords'' inp
   = ((b, None), sent @ [apiCall_request demo_env p ''/api/dns/changeRecords'' inp])"
  by (simp add: apiCall_def Let_def demo_client_def OK_def)

lemma demo_apiCall_500:
  "apiCall demo_env p (demo_client g (demo_status_500 b)) sent ''/api/dns/changeRecords'' inp
   = ((b, Some (Error ''/api/dns/changeRecords: HTTP status is 500'' [])),
      sent @ [apiCall_request demo_env p ''/api/dns/changeRecords'' inp])"
  by (simp add: apiCall_def Let_def demo_client_def demo_status_500_def decimal_def
      digits.simps)

lemma demo_apiCall_timeout:
  "apiCall demo_env p (demo_client g demo_timeout) sent ''/api/dns/changeRecords'' inp
   = (([], Some (Error (''/api/dns/changeRecords: Failed performing HTTP request: ''
                          @ ''context deadline exceeded'')
                   [Error ''context deadline exceeded'' []])),
      sent @ [apiCall_request demo_env p ''/api/dns/changeRecords'' inp])"
  by (simp add: apiCall_def Let_def demo_client_def demo_timeout_def Errorf_w_def)

lemma demo_run_getData_error:
  "Update demo_env demo_provider
     (demo_client (OK demo_getData_error_body) (OK demo_changeRecords_body)) demo_ip
   = (Return Addr_zero (Some (Error ''getData response doesn't indicate success'' [])),
      [apiCall_request demo_env demo_provider ''api/dns/getData'' demo_getData_request])"
  by (simp add: Update_def demo_Marshal_target demo_apiCall_getData demo_Unmarshal_error
      demo_getData_error_decoded_def)

lemma demo_run_write_timeout:
  "Update demo_env demo_provider (demo_client (OK demo_getData_body) demo_timeout) demo_ip
   = (Return Addr_zero
        (Some (Error (''Failed unmarshalling changeRecords response: ''
                        @ ''unexpected end of JSON input'')
                 [Error ''unexpected end of JSON input'' []])),
      [apiCall_request demo_env demo_provider ''api/dns/getData'' demo_getData_request,
       apiCall_request demo_env demo_provider ''/api/dns/changeRecords''
         demo_changeRecords_request])"
  using Update_write_phase [where ip = demo_ip,
      OF demo_Marshal_target demo_apiCall_getData demo_fetch demo_Marshal_newAEntry
        demo_Marshal_records demo_apiCall_timeout]
  by (simp add: demo_Unmarshal_empty demo_SyntaxError_def Errorf_w_def)

subsection \<open>Construction\<close>

text \<open>
  C6. When the configuration blob decodes and the domain check refuses its
  \<^verbatim>\<open>domain\<close> field with an error \<open>err\<close>, \<^verbatim>\<open>New\<close> returns no provider and an
  error that wraps both \<^verbatim>\<open>ErrDomainNotValid\<close> and \<open>err\<close> (the format
  \<^verbatim>\<open>"%w: %w"\<close>).
\<close>

theorem New_invalid_domain:
  assumes "json_Unmarshal_extraSettings e data = Inr s"
    and "CheckDomain e (Domain s) = Some err"
  shows "New e data d ow =
           Inl (Error (msg (ErrDomainNotValid e) @ '': '' @ msg err) [ErrDomainNotValid e, err])
         \<and> (\<nexists>p. New e data d ow = Inr p)"
  using assms by (simp add: New_def)

theorem New_invalid_domain_witness:
  "New demo_env demo_config_bad_domain ''example.com'' ''home'' =
     Inl (Error ''domain is not valid: invalid domain name''
            [Error ''domain is not valid'' [], Error ''invalid domain name'' []])"
proof -
  have c: "CheckDomain demo_env
             (Domain \<lparr>Login = ''user'', Password = ''secret'', Domain = ''home example'',
                      Priority = 10\<rparr>)
           = Some (Error ''invalid domain name'' [])"
    by (simp add: demo_env_def demo_CheckDomain_def)
  show ?thesis
    using New_invalid_domain [OF demo_Unmarshal_bad_domain c, of "''example.com''" "''home''"]
    by (simp add: demo_env_def)
qed

text \<open>
  C7, as the code has it. \<^verbatim>\<open>New\<close> does not look at the credentials: whenever the
  blob decodes and its domain passes the domain check, \<^verbatim>\<open>New\<close> returns a provider
  that carries the decoded login and password as they are, empty or not. The run after
  the theorem builds a provider from a configuration without credentials.
\<close>

theorem New_keeps_credentials:
  assumes "json_Unmarshal_extraSettings e data = Inr s"
    and "CheckDomain e (Domain s) = None"
  shows "New e data d ow =
           Inr \<lparr>domain = d, target = Domain s, owner = ow, login = Login s,
                password = Password s, priority = extraSettings.Priority s\<rparr>"
  using assms by (simp add: New_def)

theorem New_keeps_credentials_witness:
  "New demo_env demo_config ''example.com'' ''home'' = Inr demo_provider"
proof -
  have c: "CheckDomain demo_env
             (Domain \<lparr>Login = ''user'', Password = ''secret'', Domain = ''home.example.com'',
                      Priority = 10\<rparr>)
           = None"
    by (simp add: demo_CheckDomain_home)
  show ?thesis
    using New_keeps_credentials [OF demo_Unmarshal_config c, of "''example.com''" "''home''"]
    by (simp add: demo_provider_def)
qed

theorem New_empty_credentials_counterexample:
  "New demo_env demo_config_no_credentials ''example.com'' ''home'' =
     Inr \<lparr>domain = ''example.com'', target = ''home.example.com'', owner = ''home'',
          login = [], password = [], priority = 10\<rparr>"
  by (simp add: New_def demo_Unmarshal_no_credentials demo_CheckDomain_home)

subsection \<open>The authenticated GET\<close>

text \<open>
  C8. When the request can be created, \<^verbatim>\<open>apiCall\<close> hands the client one request:
  a GET with no body of the URL with scheme https, host api.beget.com and the given
  path (behind a slash, when it is not empty and does not start with one), whose query
  holds exactly the five keys \<^verbatim>\<open>login\<close>, \<^verbatim>\<open>passwd\<close>,
  \<^verbatim>\<open>input_format\<close>, \<^verbatim>\<open>output_format\<close> and \<^verbatim>\<open>input_data\<close> with the stored
  login, the stored password, \<^verbatim>\<open>json\<close>, \<^verbatim>\<open>json\<close> and the payload, and whose
  header holds the fixed user agent and \<^verbatim>\<open>Accept: application/json\<close>.
\<close>

theorem apiCall_request_shape:
  assumes "NewRequestWithContext_err e (apiCall_url p ep inp) = None"
  shows "snd (apiCall e p client sent ep inp) = sent @ [apiCall_request e p ep inp]
    \<and> apiCall_request e p ep inp =
        \<lparr>Method = ''GET'',
         Url = \<lparr>Scheme = ''https'', Host = ''api.beget.com'', Path = norm_path ep,
                RawQuery = [''login'' \<mapsto> [login p], ''passwd'' \<mapsto> [password p],
                            ''input_format'' \<mapsto> [''json''], ''output_format'' \<mapsto> [''json''],
                            ''input_data'' \<mapsto> [inp]]\<rparr>,
         Header = [''User-Agent'' \<mapsto> [userAgent e], ''Accept'' \<mapsto> [''application/json'']],
         Body = None\<rparr>
    \<and> dom (RawQuery (Url (apiCall_request e p ep inp))) =
        {''login'', ''passwd'', ''input_format'', ''output_format'', ''input_data''}"
proof -
  have 1: "snd (apiCall e p client sent ep inp) = sent @ [apiCall_request e p ep inp]"
    using assms by (simp add: apiCall_def Let_def split: sum.split)
  have 2: "apiCall_request e p ep inp =
        \<lparr>Method = ''GET'',
         Url = \<lparr>Scheme = ''https'', Host = ''api.beget.com'', Path = norm_path ep,
                RawQuery = [''login'' \<mapsto> [login p], ''passwd'' \<mapsto> [password p],
                            ''input_format'' \<mapsto> [''json''], ''output_format'' \<mapsto> [''json''],
                            ''input_data'' \<mapsto> [inp]]\<rparr>,
         Header = [''User-Agent'' \<mapsto> [userAgent e], ''Accept'' \<mapsto> [''application/json'']],
         Body = None\<rparr>"
    by (simp add: apiCall_request_def SetAccept_def SetUserAgent_def apiCall_url_def
        URL_String_Parse_def Values_Set_def Let_def)
  have 3: "dom (RawQuery (Url (apiCall_request e p ep inp))) =
        {''login'', ''passwd'', ''input_format'', ''output_format'', ''input_data''}"
    unfolding 2 by auto
  from 1 2 3 show ?thesis by blast
qed

theorem apiCall_request_shape_witness:
  "snd (apiCall demo_env demo_provider
          (demo_client (OK demo_getData_body) (OK demo_changeRecords_body))
          [] ''api/dns/getData'' demo_getData_request)
   = [\<lparr>Method = ''GET'',
       Url = \<lparr>Scheme = ''https'', Host = ''api.beget.com'', Path = ''/api/dns/getData'',
              RawQuery = [''login'' \<mapsto> [''user''], ''passwd'' \<mapsto> [''secret''],
                          ''input_format'' \<mapsto> [''json''], ''output_format'' \<mapsto> [''json''],
                          ''input_data'' \<mapsto> [demo_getData_request]]\<rparr>,
       Header = [''User-Agent'' \<mapsto> [''DDNS-Updater''], ''Accept'' \<mapsto> [''application/json'']],
       Body = None\<rparr>]"
proof -
  have h: "NewRequestWithContext_err demo_env
             (apiCall_url demo_provider ''api/dns/getData'' demo_getData_request) = None"
    by simp
  have u: "userAgent demo_env = ''DDNS-Updater''"
    by (simp add: demo_env_def)
  have l: "login demo_provider = ''user''" "password demo_provider = ''secret''"
    by (simp_all add: demo_provider_def)
  show ?thesis
    using apiCall_request_shape [OF h,
        of "demo_client (OK demo_getData_body) (OK demo_changeRecords_body)" "[]"]
    by (simp add: u l)
qed

text \<open>
  C9. When the client answers with a response whose body is read in full as \<open>b\<close>,
  \<^verbatim>\<open>apiCall\<close> returns \<open>b\<close>: with no error when the status code is 200, and together
  with the error \<^verbatim>\<open>HTTP status is <code>\<close> for every other status code.
\<close>

theorem apiCall_status_code:
  assumes "NewRequestWithContext_err e (apiCall_url p ep inp) = None"
    and "client sent (apiCall_request e p ep inp) = Inr resp"
    and "ReadAll_Body resp = Inr b"
  shows "fst (apiCall e p client sent ep inp) =
           (b, if StatusCode resp = 200 then None
               else Some (Error (ep @ '': HTTP status is '' @ decimal (StatusCode resp)) []))"
  using assms by (simp add: apiCall_def Let_def)

theorem apiCall_status_code_witness:
  "fst (apiCall demo_env demo_provider
          (demo_client (OK demo_getData_body)
             (Inr \<lparr>StatusCode = 500, ReadAll_Body = Inr demo_changeRecords_rejected_body\<rparr>))
          [] ''/api/dns/changeRecords'' demo_changeRecords_request)
     = (demo_changeRecords_rejected_body,
        Some (Error ''/api/dns/changeRecords: HTTP status is 500'' []))
   \<and> fst (apiCall demo_env demo_provider
          (demo_client (OK demo_getData_body)
             (Inr \<lparr>StatusCode = 500, ReadAll_Body = Inr demo_changeRecords_rejected_body\<rparr>))
          [] ''api/dns/getData'' demo_getData_request)
     = (demo_getData_body, None)"
proof -
  let ?w = "\<lparr>StatusCode = 500, ReadAll_Body = Inr demo_changeRecords_rejected_body\<rparr>"
  let ?g = "\<lparr>StatusCode = 200, ReadAll_Body = Inr demo_getData_body\<rparr>"
  let ?c = "demo_client (OK demo_getData_body) (Inr ?w)"
  have nw: "NewRequestWithContext_err demo_env
              (apiCall_url demo_provider ''/api/dns/changeRecords'' demo_changeRecords_request)
            = None"
    and ng: "NewRequestWithContext_err demo_env
              (apiCall_url demo_provider ''api/dns/getData'' demo_getData_request) = None"
    by simp_all
  have w: "?c [] (apiCall_request demo_env demo_provider ''/api/dns/changeRecords''
                    demo_changeRecords_request) = Inr ?w"
    by (simp add: demo_client_def)
  have g: "?c [] (apiCall_request demo_env demo_provider ''api/dns/getData''
                    demo_getData_request) = Inr ?g"
    by (simp add: demo_client_def OK_def)
  have rw: "ReadAll_Body ?w = Inr demo_changeRecords_rejected_body"
    and rg: "ReadAll_Body ?g = Inr demo_getData_body"
    by simp_all
  show ?thesis
    using apiCall_status_code [where client = ?c and sent = "[]", OF nw w rw]
      apiCall_status_code [where client = ?c and sent = "[]", OF ng g rg]
    by (simp add: decimal_def digits.simps)
qed

subsection \<open>The fetch phase of Update\<close>

text \<open>
  C1. When the fetch returns a body that decodes to a response whose outer status is
  not \<^verbatim>\<open>success\<close>, or whose answer's status is not \<^verbatim>\<open>success\<close>, or whose
  FQDN is not the target (equality of the two strings, character by character),
  \<^verbatim>\<open>Update\<close> returns the error of line 182, and the only request the client was
  handed is the one to getData: none goes to changeRecords.
\<close>

theorem Update_fetch_rejected:
  assumes "json_Marshal_fqdn e (target p) = Inr q"
    and "apiCall e p client [] ''api/dns/getData'' q = ((raw, None), sent)"
    and "json_Unmarshal_getData e raw = Inr r"
    and "Status r \<noteq> ''success'' \<or> Answer_Status (Answer r) \<noteq> ''success''
         \<or> FQDN (Answer_Result (Answer r)) \<noteq> target p"
  shows "Update e p client ip =
           (Return Addr_zero (Some (Error ''getData response doesn't indicate success'' [])),
            [apiCall_request e p ''api/dns/getData'' q])
         \<and> (\<forall>x \<in> set (snd (Update e p client ip)).
               Path (Url x) \<noteq> ''/api/dns/changeRecords'')"
proof -
  have s: "sent = [apiCall_request e p ''api/dns/getData'' q]"
    using apiCall_no_error_sent [OF assms(2)] by simp
  have u: "Update e p client ip =
           (Return Addr_zero (Some (Error ''getData response doesn't indicate success'' [])),
            [apiCall_request e p ''api/dns/getData'' q])"
    using assms(4) by (simp add: Update_def assms(1,2,3) s)
  show ?thesis
    unfolding u by simp
qed

theorem Update_fetch_rejected_witness:
  "Update demo_env demo_provider
     (demo_client (OK demo_getData_other_fqdn_body) (OK demo_changeRecords_body)) demo_ip
   = (Return Addr_zero (Some (Error ''getData response doesn't indicate success'' [])),
      [apiCall_request demo_env demo_provider ''api/dns/getData'' demo_getData_request])"
proof -
  let ?r = demo_getData_other_fqdn_decoded
  have f: "Status ?r \<noteq> ''success'' \<or> Answer_Status (Answer ?r) \<noteq> ''success''
         \<or> FQDN (Answer_Result (Answer ?r)) \<noteq> target demo_provider"
    by (simp add: demo_provider_def demo_getData_other_fqdn_decoded_def)
  show ?thesis
    using Update_fetch_rejected [OF demo_Marshal_target demo_apiCall_getData
        demo_Unmarshal_other_fqdn f, where ip = demo_ip]
    by simp
qed

subsection \<open>The write phase of Update\<close>

text \<open>
  C2. When the fetch passes its checks and returns the record map \<open>R\<close>, the document
  serialised for the write is the target with the map \<open>R(''A'' \<mapsto> a)\<close>, where \<open>a\<close>
  is the serialised one-element list of the configured priority and \<^verbatim>\<open>ip.String()\<close>:
  the entry of \<^verbatim>\<open>A\<close> is replaced or inserted whatever \<open>R\<close> held there, and every
  other key keeps the value \<open>R\<close> gives it. The write request carries this document as
  \<^verbatim>\<open>input_data\<close>, and it is the second and last request of the call.
\<close>

theorem Update_write_payload:
  assumes "json_Marshal_fqdn e (target p) = Inr q"
    and "apiCall e p client [] ''api/dns/getData'' q = ((raw, None), sent)"
    and "json_Unmarshal_getData e raw = Inr r"
    and "Status r = ''success''"
    and "Answer_Status (Answer r) = ''success''"
    and "FQDN (Answer_Result (Answer r)) = target p"
    and "Records (Answer_Result (Answer r)) = Some R"
    and "json_Marshal_AEntries e [\<lparr>Priority = priority p, Value = Addr_String e ip\<rparr>] = Inr a"
    and "json_Marshal_inputData e \<lparr>FQDN = target p, Records = Some (R(''A'' \<mapsto> a))\<rparr>
           = Inr payload"
    and "NewRequestWithContext_err e (apiCall_url p ''/api/dns/changeRecords'' payload) = None"
  shows "snd (Update e p client ip) =
           [apiCall_request e p ''api/dns/getData'' q,
            apiCall_request e p ''/api/dns/changeRecords'' payload]
         \<and> RawQuery (Url (apiCall_request e p ''/api/dns/changeRecords'' payload)) ''input_data''
             = Some [payload]"
proof -
  have s: "sent = [apiCall_request e p ''api/dns/getData'' q]"
    using apiCall_no_error_sent [OF assms(2)] by simp
  have w: "snd (apiCall e p client sent ''/api/dns/changeRecords'' payload) =
             sent @ [apiCall_request e p ''/api/dns/changeRecords'' payload]"
    using assms(10) by (simp add: apiCall_def Let_def split: sum.split)
  have "snd (Update e p client ip) =
          snd (apiCall e p client sent ''/api/dns/changeRecords'' payload)"
    by (simp add: Update_def assms(1-9) map_assign_def split: prod.split sum.split)
  then have 1: "snd (Update e p client ip) =
           [apiCall_request e p ''api/dns/getData'' q,
            apiCall_request e p ''/api/dns/changeRecords'' payload]"
    using w by (simp add: s)
  have 2: "RawQuery (Url (apiCall_request e p ''/api/dns/changeRecords'' payload)) ''input_data''
             = Some [payload]"
    by (simp add: apiCall_request_def SetAccept_def SetUserAgent_def apiCall_url_def
        URL_String_Parse_def Values_Set_def Let_def)
  from 1 2 show ?thesis by simp
qed

theorem Update_write_payload_witness:
  "snd (Update demo_env demo_provider
          (demo_client (OK demo_getData_body) (OK demo_changeRecords_body)) demo_ip)
   = [apiCall_request demo_env demo_provider ''api/dns/getData'' demo_getData_request,
      apiCall_request demo_env demo_provider ''/api/dns/changeRecords''
        demo_changeRecords_request]"
  using Update_write_payload [where ip = demo_ip,
      OF demo_Marshal_target demo_apiCall_getData demo_fetch demo_Marshal_newAEntry
        demo_Marshal_records demo_NewRequest]
  by simp

text \<open>
  C3. When the body returned by the write decodes to a response whose outer status
  and answer's status are both \<^verbatim>\<open>success\<close>, \<^verbatim>\<open>Update\<close> returns the address it was
  given and no error. Nothing of the response enters the returned address, and the
  error \<open>err'\<close> of the write call, if any, does not change the result.
\<close>

theorem Update_write_accepted:
  assumes "json_Marshal_fqdn e (target p) = Inr q"
    and "apiCall e p client [] ''api/dns/getData'' q = ((raw, None), sent)"
    and "json_Unmarshal_getData e raw = Inr r"
    and "Status r = ''success''"
    and "Answer_Status (Answer r) = ''success''"
    and "FQDN (Answer_Result (Answer r)) = target p"
    and "Records (Answer_Result (Answer r)) = Some R"
    and "json_Marshal_AEntries e [\<lparr>Priority = priority p, Value = Addr_String e ip\<rparr>] = Inr a"
    and "json_Marshal_inputData e \<lparr>FQDN = target p, Records = Some (R(''A'' \<mapsto> a))\<rparr>
           = Inr payload"
    and "apiCall e p client sent ''/api/dns/changeRecords'' payload = ((raw', err'), sent')"
    and "json_Unmarshal_changeRecords e raw' = Inr res"
    and "Status res = ''success''"
    and "Answer_Status (Answer res) = ''success''"
  shows "Update e p client ip = (Return ip None, sent')"
  by (simp add: Update_def assms map_assign_def)

theorem Update_write_accepted_witness:
  "Update demo_env demo_provider
     (demo_client (OK demo_getData_body) (OK demo_changeRecords_body)) demo_ip
   = (Return demo_ip None,
      [apiCall_request demo_env demo_provider ''api/dns/getData'' demo_getData_request,
       apiCall_request demo_env demo_provider ''/api/dns/changeRecords''
         demo_changeRecords_request])"
  using Update_write_accepted [where ip = demo_ip,
      OF demo_Marshal_target demo_apiCall_getData demo_fetch demo_Marshal_newAEntry
        demo_Marshal_records demo_apiCall_changeRecords demo_Unmarshal_accepted]
  by simp

text \<open>
  C4, as the code has it. The error of the write call is dropped: when that call
  returns a body together with an error \<open>err'\<close> (a status code other than 200) and the
  body decodes to a response with both statuses \<^verbatim>\<open>success\<close>, \<^verbatim>\<open>Update\<close> returns
  the address and no error. The run after the theorem is a write answered with status
  500; in the run with an expired deadline, where the body is empty, the error returned
  is the decoder's and does not wrap the transport's.
\<close>

theorem Update_write_error_dropped:
  assumes "json_Marshal_fqdn e (target p) = Inr q"
    and "apiCall e p client [] ''api/dns/getData'' q = ((raw, None), sent)"
    and "json_Unmarshal_getData e raw = Inr r"
    and "Status r = ''success''"
    and "Answer_Status (Answer r) = ''success''"
    and "FQDN (Answer_Result (Answer r)) = target p"
    and "Records (Answer_Result (Answer r)) = Some R"
    and "json_Marshal_AEntries e [\<lparr>Priority = priority p, Value = Addr_String e ip\<rparr>] = Inr a"
    and "json_Marshal_inputData e \<lparr>FQDN = target p, Records = Some (R(''A'' \<mapsto> a))\<rparr>
           = Inr payload"
    and "apiCall e p client sent ''/api/dns/changeRecords'' payload
           = ((raw', Some err'), sent')"
    and "json_Unmarshal_changeRecords e raw' = Inr res"
    and "Status res = ''success''"
    and "Answer_Status (Answer res) = ''success''"
  shows "Update e p client ip = (Return ip None, sent')"
  using Update_write_phase [OF assms(1-10)] by (simp add: assms(11-13))

theorem Update_write_error_dropped_witness:
  "fst (apiCall demo_env demo_provider
          (demo_client (OK demo_getData_body) (demo_status_500 demo_changeRecords_body))
          [apiCall_request demo_env demo_provider ''api/dns/getData'' demo_getData_request]
          ''/api/dns/changeRecords'' demo_changeRecords_request)
     = (demo_changeRecords_body,
        Some (Error ''/api/dns/changeRecords: HTTP status is 500'' []))
   \<and> fst (Update demo_env demo_provider
            (demo_client (OK demo_getData_body) (demo_status_500 demo_changeRecords_body))
            demo_ip)
     = Return demo_ip None
   \<and> fst (Update demo_env demo_provider
            (demo_client (OK demo_getData_body) demo_timeout) demo_ip)
     = Return Addr_zero
         (Some (Error (''Failed unmarshalling changeRecords response: ''
                         @ ''unexpected end of JSON input'')
                  [Error ''unexpected end of JSON input'' []]))"
  using Update_write_error_dropped [where ip = demo_ip,
      OF demo_Marshal_target demo_apiCall_getData demo_fetch demo_Marshal_newAEntry
        demo_Marshal_records demo_apiCall_500 demo_Unmarshal_accepted]
  by (simp add: demo_apiCall_500 demo_run_write_timeout)

text \<open>
  C5. When the body \<open>raw'\<close> returned by the write decodes to a response whose outer
  status or answer's status is not \<^verbatim>\<open>success\<close>, \<^verbatim>\<open>Update\<close> returns an error
  whose message is the text of line 225 followed by the single-line rendering of
  \<open>raw'\<close>, and the message holds no line feed and no carriage return.
\<close>

theorem Update_write_rejected:
  assumes "json_Marshal_fqdn e (target p) = Inr q"
    and "apiCall e p client [] ''api/dns/getData'' q = ((raw, None), sent)"
    and "json_Unmarshal_getData e raw = Inr r"
    and "Status r = ''success''"
    and "Answer_Status (Answer r) = ''success''"
    and "FQDN (Answer_Result (Answer r)) = target p"
    and "Records (Answer_Result (Answer r)) = Some R"
    and "json_Marshal_AEntries e [\<lparr>Priority = priority p, Value = Addr_String e ip\<rparr>] = Inr a"
    and "json_Marshal_inputData e \<lparr>FQDN = target p, Records = Some (R(''A'' \<mapsto> a))\<rparr>
           = Inr payload"
    and "apiCall e p client sent ''/api/dns/changeRecords'' payload = ((raw', err'), sent')"
    and "json_Unmarshal_changeRecords e raw' = Inr res"
    and "Status res \<noteq> ''success'' \<or> Answer_Status (Answer res) \<noteq> ''success''"
  shows "\<exists>err. Update e p client ip = (Return Addr_zero (Some err), sent')
           \<and> msg err = ''changeRequest response doesn't indicate success: '' @ ToSingleLine raw'
           \<and> CHR 0x0A \<notin> set (msg err) \<and> CHR 0x0D \<notin> set (msg err)"
proof -
  let ?err = "Error (''changeRequest response doesn't indicate success: '' @ ToSingleLine raw') []"
  have u: "Update e p client ip = (Return Addr_zero (Some ?err), sent')"
    using assms(12) by (simp add: Update_def assms(1-11) map_assign_def)
  have lf: "CHR 0x0A \<notin> set (ToSingleLine raw')"
    using ToSingleLine_no_control is_control_LF by blast
  have cr: "CHR 0x0D \<notin> set (ToSingleLine raw')"
    using ToSingleLine_no_control is_control_CR by blast
  have "CHR 0x0A \<notin> set (msg ?err)" "CHR 0x0D \<notin> set (msg ?err)"
    using lf cr by simp_all
  with u show ?thesis by (intro exI [of _ ?err]) simp
qed

theorem Update_write_rejected_witness:
  \<open>\<exists>err. Update demo_env demo_provider
            (demo_client (OK demo_getData_body) (OK demo_changeRecords_rejected_body)) demo_ip
          = (Return Addr_zero (Some err),
             [apiCall_request demo_env demo_provider ''api/dns/getData'' demo_getData_request,
              apiCall_request demo_env demo_provider ''/api/dns/changeRecords''
                demo_changeRecords_request])
        \<and> msg err = ''changeRequest response doesn't indicate success: ''
                      @ ''{"Status":"success","Answer":{"Status":"error"}}''\<close>
  using Update_write_rejected [where ip = demo_ip,
      OF demo_Marshal_target demo_apiCall_getData demo_fetch demo_Marshal_newAEntry
        demo_Marshal_records demo_apiCall_changeRecords demo_Unmarshal_rejected]
  by (auto simp: demo_ToSingleLine_rejected)

subsection \<open>The address returned with an error\<close>

text \<open>
  C10. Whenever \<^verbatim>\<open>Update\<close> returns an error, the address it returns with it is the
  zero \<^verbatim>\<open>netip.Addr\<close>, which is not a valid address.
\<close>

theorem Update_error_returns_zero_Addr:
  assumes "Update e p client ip = (Return a (Some err), sent)"
  shows "a = Addr_zero \<and> \<not> IsValid a"
proof -
  have "a = Addr_zero"
    using assms unfolding Update_def Let_def
    by (auto split: sum.splits prod.splits option.splits if_splits)
  then show ?thesis by (simp add: IsValid_def)
qed

theorem Update_error_returns_zero_Addr_witness:
  "fst (Update demo_env demo_provider
          (demo_client (OK demo_getData_error_body) (OK demo_changeRecords_body)) demo_ip)
     = Return Addr_zero (Some (Error ''getData response doesn't indicate success'' []))
   \<and> \<not> IsValid Addr_zero"
  using Update_error_returns_zero_Addr [OF demo_run_getData_error]
  by (simp add: demo_run_getData_error)

end
